theory Spec2Isabelle
  imports Main
begin

section \<open>Contact (\<^verbatim>\<open>conmgr/contact.py\<close>)\<close>

subsection \<open>The two validation patterns\<close>

text \<open>
  A Python string is a sequence of Unicode code points, among them the surrogates;
  it is modelled as the list of these code points, natural numbers. A literal of the
  source is written with \<open>ustr\<close>, which gives the code points of its characters.
\<close>

type_synonym ustring = "nat list"

definition ustr :: "string \<Rightarrow> ustring" where
  "ustr s = map of_char s"

text \<open>
  The constructor validates with \<^verbatim>\<open>re.match(r".*@.*\..*", email)\<close> and
  \<^verbatim>\<open>re.match(r"\d{9}", phone)\<close>. The fragment of regular expressions these
  two patterns use is embedded directly: an atom matches one character, an item is an
  atom, a starred atom or an atom repeated a fixed number of times, and a pattern is
  a sequence of items. \<^verbatim>\<open>.\<close> is any character but the newline, as no DOTALL
  flag is given. \<^verbatim>\<open>\d\<close> on a \<^verbatim>\<open>str\<close> is any character that the Unicode
  database of the interpreter classifies as a decimal digit: the ASCII digits, the
  Arabic-Indic digits, the fullwidth digits and many more, a table that grows with
  the Unicode version and is not part of the repository. That class is the parameter
  \<open>dec\<close> of the matcher and of everything that calls it; nothing is assumed of it.
  \<^verbatim>\<open>re.match\<close> anchors at the start of the string only: a pattern matches when
  some prefix of the string does.
\<close>

datatype atom = Any | Ch nat | Dig

fun atom_ok :: "(nat \<Rightarrow> bool) \<Rightarrow> atom \<Rightarrow> nat \<Rightarrow> bool" where
  "atom_ok dec Any c = (c \<noteq> of_char (CHR 0x0A))"
| "atom_ok dec (Ch d) c = (c = d)"
| "atom_ok dec Dig c = dec c"

datatype item = One atom | Star atom | Times nat atom

fun re_match :: "(nat \<Rightarrow> bool) \<Rightarrow> item list \<Rightarrow> ustring \<Rightarrow> bool" where
  "re_match dec [] s = True"
| "re_match dec (One a # r) [] = False"
| "re_match dec (One a # r) (c # s) = (atom_ok dec a c \<and> re_match dec r s)"
| "re_match dec (Star a # r) [] = re_match dec r []"
| "re_match dec (Star a # r) (c # s) =
     ((atom_ok dec a c \<and> re_match dec (Star a # r) s) \<or> re_match dec r (c # s))"
| "re_match dec (Times 0 a # r) s = re_match dec r s"
| "re_match dec (Times (Suc n) a # r) [] = False"
| "re_match dec (Times (Suc n) a # r) (c # s) =
     (atom_ok dec a c \<and> re_match dec (Times n a # r) s)"

definition email_re :: "item list" where
  "email_re =
     [Star Any, One (Ch (of_char (CHR ''@''))), Star Any, One (Ch (of_char (CHR ''.''))),
      Star Any]"

definition phone_re :: "item list" where
  "phone_re = [Times 9 Dig]"

subsection \<open>Errors\<close>

text \<open>
  Every \<^verbatim>\<open>raise\<close> of the source is a value. The messages of the
  \<^verbatim>\<open>ValueError\<close>s are kept apart by a constructor each; paths are the component
  lists introduced with the file system below.
\<close>

type_synonym path = "ustring list"

datatype message =
    Email_invalid ustring
  | Phone_invalid ustring
  | Bad_argument_names
  | Duplicate_phones
  | Duplicate_emails
  | Path_not_exist path
  | Path_not_dir
  | File_not_exists path
  | File_not_file path
  | File_not_json path
  | No_contacts
  | No_store_path
  | Provide_phone_or_email
  | Invalid_phone_identifier
  | Not_in_list

subsection \<open>The class\<close>

record contact =
  first_name :: ustring
  last_name :: ustring
  email :: ustring
  phone :: ustring
  address :: "ustring option"

datatype error =
    ValueError message
  | DuplicatePhoneError contact
  | DuplicateEmailError contact
  | KeyError ustring
  | StopIteration
  | TypeError
  | OSError

text \<open>\<^verbatim>\<open>Contact.__init__\<close>: the email is checked before the phone.\<close>

definition Contact_init ::
  "(nat \<Rightarrow> bool) \<Rightarrow> ustring \<Rightarrow> ustring \<Rightarrow> ustring \<Rightarrow> ustring \<Rightarrow> ustring option
     \<Rightarrow> error + contact" where
  "Contact_init dec frst lst eml phn addr =
     (if \<not> re_match dec email_re eml then Inl (ValueError (Email_invalid eml))
      else if \<not> re_match dec phone_re phn then Inl (ValueError (Phone_invalid phn))
      else Inr \<lparr>first_name = frst, last_name = lst, email = eml, phone = phn,
                address = addr\<rparr>)"

text \<open>\<^verbatim>\<open>Contact.__eq__\<close>, on two contacts.\<close>

definition Contact_eq :: "contact \<Rightarrow> contact \<Rightarrow> bool" where
  "Contact_eq a b = (phone a = phone b \<or> email a = email b)"

subsection \<open>Dictionaries\<close>

text \<open>
  A dictionary of \<^verbatim>\<open>to_dict\<close> has the type \<^verbatim>\<open>dict[str, str | None]\<close>: a map
  from keys to optional strings. The keys this program looks at are the five
  attribute names; keys are of type \<^typ>\<open>string\<close>, values are Python strings.
\<close>

type_synonym pydict = "string \<rightharpoonup> ustring option"

definition ATTR_LIST :: "string list" where
  "ATTR_LIST = [''first_name'', ''last_name'', ''email'', ''phone'', ''address'']"

definition ATTR_SET :: "string set" where
  "ATTR_SET = set ATTR_LIST"

definition to_dict :: "contact \<Rightarrow> pydict" where
  "to_dict c =
     [''first_name'' \<mapsto> Some (first_name c),
      ''last_name'' \<mapsto> Some (last_name c),
      ''email'' \<mapsto> Some (email c),
      ''phone'' \<mapsto> Some (phone c),
      ''address'' \<mapsto> address c]"

text \<open>
  Subscription \<^verbatim>\<open>d[k]\<close> raises \<^verbatim>\<open>KeyError\<close> on a missing key.
\<close>

definition getitem :: "pydict \<Rightarrow> string \<Rightarrow> error + ustring option" where
  "getitem d k = (case d k of None \<Rightarrow> Inl (KeyError (ustr k)) | Some v \<Rightarrow> Inr v)"

text \<open>
  The constructor as \<^verbatim>\<open>from_dict\<close> calls it, on values that may be
  \<^verbatim>\<open>None\<close>: \<^verbatim>\<open>re.match\<close> raises \<^verbatim>\<open>TypeError\<close> on a \<^verbatim>\<open>None\<close>
  email or phone, in the order of the two checks. A \<^verbatim>\<open>None\<close> first or last
  name lies outside the declared type \<^verbatim>\<open>str\<close> of the fields and cannot be stored
  in the record; the model answers \<^verbatim>\<open>TypeError\<close> there as well.
\<close>

definition Contact_init_dyn ::
  "(nat \<Rightarrow> bool) \<Rightarrow> ustring option \<Rightarrow> ustring option \<Rightarrow> ustring option \<Rightarrow> ustring option
     \<Rightarrow> ustring option \<Rightarrow> error + contact" where
  "Contact_init_dyn dec frst lst eml phn addr =
     (case eml of None \<Rightarrow> Inl TypeError
      | Some e \<Rightarrow>
          if \<not> re_match dec email_re e then Inl (ValueError (Email_invalid e))
          else (case phn of None \<Rightarrow> Inl TypeError
          | Some p \<Rightarrow>
              if \<not> re_match dec phone_re p then Inl (ValueError (Phone_invalid p))
              else (case (frst, lst) of
                      (Some f, Some l) \<Rightarrow> Contact_init dec f l e p addr
                    | _ \<Rightarrow> Inl TypeError)))"

definition from_dict :: "(nat \<Rightarrow> bool) \<Rightarrow> pydict \<Rightarrow> error + contact" where
  "from_dict dec d =
     (if ATTR_SET \<noteq> dom d then Inl (ValueError Bad_argument_names)
      else
        (case getitem d ''first_name'' of Inl e \<Rightarrow> Inl e | Inr f \<Rightarrow>
        (case getitem d ''last_name'' of Inl e \<Rightarrow> Inl e | Inr l \<Rightarrow>
        (case getitem d ''email'' of Inl e \<Rightarrow> Inl e | Inr m \<Rightarrow>
        (case getitem d ''phone'' of Inl e \<Rightarrow> Inl e | Inr p \<Rightarrow>
        (case getitem d ''address'' of Inl e \<Rightarrow> Inl e | Inr a \<Rightarrow>
          Contact_init_dyn dec f l m p a))))))"

section \<open>ContactManager (\<^verbatim>\<open>conmgr/contact_mgr.py\<close>)\<close>

subsection \<open>Paths, snapshot files and the file system\<close>

text \<open>
  \<^verbatim>\<open>pathlib\<close> is an external collaborator. A path, and a string that denotes one,
  is modelled by the list of its components, so that \<^verbatim>\<open>Path(s)\<close> and
  \<^verbatim>\<open>str(p)\<close> are the identity, \<^verbatim>\<open>p / name\<close> appends a component and
  \<^verbatim>\<open>p.parent\<close> drops the last one (the parent of the empty path is itself, as for
  \<^verbatim>\<open>Path(".")\<close>). \<^verbatim>\<open>p.suffix\<close> follows pathlib: with \<^verbatim>\<open>i\<close> the last
  index of a dot in the final component, it is the component from \<^verbatim>\<open>i\<close> on when
  \<^verbatim>\<open>0 < i < len(name) - 1\<close>, and empty otherwise.
\<close>

definition path_join :: "path \<Rightarrow> ustring \<Rightarrow> path" where
  "path_join p name = p @ [name]"

definition path_parent :: "path \<Rightarrow> path" where
  "path_parent p = butlast p"

fun rfind :: "nat \<Rightarrow> ustring \<Rightarrow> nat option" where
  "rfind c [] = None"
| "rfind c (x # xs) =
     (case rfind c xs of
        Some i \<Rightarrow> Some (Suc i)
      | None \<Rightarrow> if x = c then Some 0 else None)"

definition path_name :: "path \<Rightarrow> ustring" where
  "path_name p = (if p = [] then [] else last p)"

definition path_suffix :: "path \<Rightarrow> ustring" where
  "path_suffix p =
     (let name = path_name p in
      case rfind (of_char (CHR ''.'')) name of
        None \<Rightarrow> []
      | Some i \<Rightarrow> if 0 < i \<and> i < length name - 1 then drop i name else [])"

text \<open>
  The JSON document of a snapshot, \<^verbatim>\<open>ConMgrJSON\<close> in the source, is a dictionary
  in which each of the keys \<^verbatim>\<open>contacts\<close> and \<^verbatim>\<open>store_path\<close> may be present or
  not; \<^verbatim>\<open>contacts\<close> holds a list of contact dictionaries and \<^verbatim>\<open>store_path\<close> a
  path string.
\<close>

record ConMgrJSON =
  json_contacts :: "pydict list option"
  json_store_path :: "path option"

text \<open>
  \<^verbatim>\<open>json.dump\<close>, called with its defaults, writes ASCII text: a code point
  above ASCII becomes a \<^verbatim>\<open>\uXXXX\<close> escape, a surrogate code point the escape of
  itself, and a supplementary code point the two escapes of its surrogate pair.
  \<^verbatim>\<open>json.load\<close> reads an escaped high surrogate that is followed by an escaped
  low surrogate as the one supplementary code point of the pair, and every other
  escape as its code point. A string in which a high surrogate code point is followed
  by a low one is therefore written as the same text as the string with the
  supplementary code point in their place. A JSON text is represented by the
  document that \<^verbatim>\<open>json.load\<close> returns for it, and \<^verbatim>\<open>json.dump\<close> takes a
  document to its text by merging, from left to right, every such pair in every
  string; keys, lists and \<^verbatim>\<open>None\<close> are written and read back as they are.
\<close>

definition is_high_surrogate :: "nat \<Rightarrow> bool" where
  "is_high_surrogate c = (0xD800 \<le> c \<and> c \<le> 0xDBFF)"

definition is_low_surrogate :: "nat \<Rightarrow> bool" where
  "is_low_surrogate c = (0xDC00 \<le> c \<and> c \<le> 0xDFFF)"

fun merge_surrogates :: "ustring \<Rightarrow> ustring" where
  "merge_surrogates (h # l # s) =
     (if is_high_surrogate h \<and> is_low_surrogate l
      then (0x10000 + (h - 0xD800) * 0x400 + (l - 0xDC00)) # merge_surrogates s
      else h # merge_surrogates (l # s))"
| "merge_surrogates [c] = [c]"
| "merge_surrogates [] = []"

definition dump_dict :: "pydict \<Rightarrow> pydict" where
  "dump_dict d = (\<lambda>k. map_option (map_option merge_surrogates) (d k))"

definition json_dump :: "ConMgrJSON \<Rightarrow> ConMgrJSON" where
  "json_dump j =
     \<lparr>json_contacts = map_option (map dump_dict) (json_contacts j),
      json_store_path = map_option (map merge_surrogates) (json_store_path j)\<rparr>"

text \<open>
  A string on which the round trip through a file is the identity has no high
  surrogate followed by a low one. \<open>dump_contact\<close> is the contact whose dictionary
  is read back from the text written for the dictionary of a contact.
\<close>

fun pair_free :: "ustring \<Rightarrow> bool" where
  "pair_free (h # l # s) =
     (\<not> (is_high_surrogate h \<and> is_low_surrogate l) \<and> pair_free (l # s))"
| "pair_free [c] = True"
| "pair_free [] = True"

definition dump_contact :: "contact \<Rightarrow> contact" where
  "dump_contact c =
     \<lparr>first_name = merge_surrogates (first_name c),
      last_name = merge_surrogates (last_name c),
      email = merge_surrogates (email c),
      phone = merge_surrogates (phone c),
      address = map_option merge_surrogates (address c)\<rparr>"

definition contact_pair_free :: "contact \<Rightarrow> bool" where
  "contact_pair_free c =
     (pair_free (first_name c) \<and> pair_free (last_name c) \<and> pair_free (email c) \<and>
      pair_free (phone c) \<and> (case address c of None \<Rightarrow> True | Some a \<Rightarrow> pair_free a))"

text \<open>
  The file system: the directories that exist and the snapshot files, each with the
  document that \<^verbatim>\<open>json.load\<close> returns for its text. Nothing else of it is
  observed by the program.
\<close>

record filesys =
  dirs :: "path set"
  files :: "path \<rightharpoonup> ConMgrJSON"

definition path_is_dir :: "filesys \<Rightarrow> path \<Rightarrow> bool" where
  "path_is_dir fs p = (p \<in> dirs fs)"

definition path_is_file :: "filesys \<Rightarrow> path \<Rightarrow> bool" where
  "path_is_file fs p = (p \<notin> dirs fs \<and> p \<in> dom (files fs))"

definition path_exists :: "filesys \<Rightarrow> path \<Rightarrow> bool" where
  "path_exists fs p = (p \<in> dirs fs \<or> p \<in> dom (files fs))"

subsection \<open>The manager\<close>

record mgr =
  contacts :: "contact list"
  store_path :: path
  phone_set :: "ustring set"
  email_set :: "ustring set"

text \<open>
  \<^verbatim>\<open>ContactManager.__init__\<close>. The deep copy of the list is the list itself in a
  model of values. The two index sets are built and compared in size with the list
  before the directory is looked at; an exception leaves no object behind.
\<close>

definition ContactManager_init :: "filesys \<Rightarrow> contact list \<Rightarrow> path \<Rightarrow> error + mgr" where
  "ContactManager_init fs cs sp =
     (let ps = phone ` set cs; es = email ` set cs in
      if length cs \<noteq> card ps then Inl (ValueError Duplicate_phones)
      else if length cs \<noteq> card es then Inl (ValueError Duplicate_emails)
      else if \<not> path_exists fs sp then Inl (ValueError (Path_not_exist sp))
      else if \<not> path_is_dir fs sp then Inl (ValueError Path_not_dir)
      else Inr \<lparr>contacts = cs, store_path = path_join sp (ustr ''contacts.json''),
                phone_set = ps, email_set = es\<rparr>)"

text \<open>
  The methods that mutate the manager return the outcome together with the state
  the manager is left in, also when they raise.
\<close>

definition add_contact :: "contact \<Rightarrow> mgr \<Rightarrow> (error + unit) \<times> mgr" where
  "add_contact new m =
     (if phone new \<in> phone_set m then (Inl (DuplicatePhoneError new), m)
      else if email new \<in> email_set m then (Inl (DuplicateEmailError new), m)
      else (Inr (),
            m\<lparr>contacts := contacts m @ [new],
              phone_set := insert (phone new) (phone_set m),
              email_set := insert (email new) (email_set m)\<rparr>))"

text \<open>
  \<^verbatim>\<open>next\<close> on a generator that yields nothing raises \<^verbatim>\<open>StopIteration\<close>.
\<close>

definition find_contact_email :: "mgr \<Rightarrow> ustring \<Rightarrow> error + contact" where
  "find_contact_email m e =
     (case find (\<lambda>x. email x = e) (contacts m) of
        None \<Rightarrow> Inl StopIteration
      | Some x \<Rightarrow> Inr x)"

definition find_contact_phone :: "mgr \<Rightarrow> ustring \<Rightarrow> error + contact" where
  "find_contact_phone m p =
     (case find (\<lambda>x. phone x = p) (contacts m) of
        None \<Rightarrow> Inl StopIteration
      | Some x \<Rightarrow> Inr x)"

text \<open>
  An optional argument is \<^verbatim>\<open>None\<close> or a string; \<^verbatim>\<open>not x\<close> holds of
  \<^verbatim>\<open>None\<close> and of the empty string.
\<close>

fun falsy :: "ustring option \<Rightarrow> bool" where
  "falsy None = True"
| "falsy (Some s) = (s = [])"

definition some_result :: "error + contact \<Rightarrow> error + contact option" where
  "some_result r = (case r of Inl e \<Rightarrow> Inl e | Inr c \<Rightarrow> Inr (Some c))"

definition find_contact ::
  "ustring option \<Rightarrow> ustring option \<Rightarrow> mgr \<Rightarrow> error + contact option" where
  "find_contact phn eml m =
     (if falsy phn \<and> falsy eml then Inl (ValueError Provide_phone_or_email)
      else
        (case phn of
           Some p \<Rightarrow>
             if p \<in> phone_set m then some_result (find_contact_phone m p) else Inr None
         | None \<Rightarrow>
             (case eml of
                Some e \<Rightarrow>
                  if e \<in> email_set m then some_result (find_contact_email m e) else Inr None
              | None \<Rightarrow> Inr None)))"

text \<open>
  \<^verbatim>\<open>list.remove(con)\<close> deletes the first element that compares equal to
  \<^verbatim>\<open>con\<close>, with \<^verbatim>\<open>Contact.__eq__\<close>, and raises \<^verbatim>\<open>ValueError\<close> when there
  is none.
\<close>

fun list_remove :: "contact \<Rightarrow> contact list \<Rightarrow> contact list option" where
  "list_remove con [] = None"
| "list_remove con (x # xs) =
     (if Contact_eq x con then Some xs else map_option ((#) x) (list_remove con xs))"

text \<open>
  \<^verbatim>\<open>__remove_contact\<close>: \<^verbatim>\<open>set.remove\<close> raises \<^verbatim>\<open>KeyError\<close> on a missing
  element, and what was removed before an exception stays removed.
\<close>

definition remove_contact_priv :: "contact \<Rightarrow> mgr \<Rightarrow> (error + unit) \<times> mgr" where
  "remove_contact_priv con m =
     (if phone con \<notin> phone_set m then (Inl (KeyError (phone con)), m)
      else
        (let m1 = m\<lparr>phone_set := phone_set m - {phone con}\<rparr> in
         if email con \<notin> email_set m1 then (Inl (KeyError (email con)), m1)
         else
           (let m2 = m1\<lparr>email_set := email_set m1 - {email con}\<rparr> in
            case list_remove con (contacts m2) of
              None \<Rightarrow> (Inl (ValueError Not_in_list), m2)
            | Some cs \<Rightarrow> (Inr (), m2\<lparr>contacts := cs\<rparr>))))"

text \<open>
  \<^verbatim>\<open>remove_contact\<close>. Both lookups go through \<^verbatim>\<open>find_contact\<close> with the
  other argument left at its default \<^verbatim>\<open>None\<close>.
\<close>

definition remove_by_email :: "ustring option \<Rightarrow> mgr \<Rightarrow> (error + unit) \<times> mgr" where
  "remove_by_email eml m =
     (case find_contact None eml m of
        Inl e \<Rightarrow> (Inl e, m)
      | Inr None \<Rightarrow> (Inr (), m)
      | Inr (Some c) \<Rightarrow> remove_contact_priv c m)"

definition remove_contact ::
  "ustring option \<Rightarrow> ustring option \<Rightarrow> mgr \<Rightarrow> (error + unit) \<times> mgr" where
  "remove_contact phn eml m =
     (if falsy phn \<and> falsy eml then (Inl (ValueError Provide_phone_or_email), m)
      else
        (case phn of
           None \<Rightarrow> remove_by_email eml m
         | Some p \<Rightarrow>
             (case find_contact (Some p) None m of
                Inl e \<Rightarrow> (Inl e, m)
              | Inr (Some c) \<Rightarrow> remove_contact_priv c m
              | Inr None \<Rightarrow> remove_by_email eml m)))"

text \<open>
  \<^verbatim>\<open>__swap_phone\<close> and \<^verbatim>\<open>__swap_email\<close>.
\<close>

definition swap_phone :: "contact \<Rightarrow> ustring \<Rightarrow> mgr \<Rightarrow> (error + unit) \<times> mgr" where
  "swap_phone c new m =
     (if phone c \<notin> phone_set m then (Inl (KeyError (phone c)), m)
      else (Inr (), m\<lparr>phone_set := insert new (phone_set m - {phone c})\<rparr>))"

definition swap_email :: "contact \<Rightarrow> ustring \<Rightarrow> mgr \<Rightarrow> (error + unit) \<times> mgr" where
  "swap_email c new m =
     (if email c \<notin> email_set m then (Inl (KeyError (email c)), m)
      else (Inr (), m\<lparr>email_set := insert new (email_set m - {email c})\<rparr>))"

text \<open>
  \<^verbatim>\<open>edit_contact\<close>. The contact \<^verbatim>\<open>c\<close> that \<^verbatim>\<open>find_contact\<close> returns is the
  object stored in the list, the first one whose phone is \<^verbatim>\<open>phone_id\<close>; the loop
  assigns to its fields in place. In the model \<^verbatim>\<open>c\<close> is the position of that
  object in the list, and an assignment to a field updates the list at that position.
  The keyword arguments are the list of their (name, value) pairs in call order, the
  values strings. An unrecognised name prints a line and changes nothing.
\<close>

definition assign :: "nat \<Rightarrow> (contact \<Rightarrow> contact) \<Rightarrow> mgr \<Rightarrow> mgr" where
  "assign i f m = m\<lparr>contacts := (contacts m)[i := f (contacts m ! i)]\<rparr>"

fun edit_loop :: "nat \<Rightarrow> (string \<times> ustring) list \<Rightarrow> mgr \<Rightarrow> (error + unit) \<times> mgr" where
  "edit_loop i [] m = (Inr (), m)"
| "edit_loop i ((a, v) # us) m =
     (if a = ''first_name'' then edit_loop i us (assign i (\<lambda>c. c\<lparr>first_name := v\<rparr>) m)
      else if a = ''last_name'' then edit_loop i us (assign i (\<lambda>c. c\<lparr>last_name := v\<rparr>) m)
      else if a = ''email'' then
        (let (r, m') = swap_email (contacts m ! i) v m in
         case r of
           Inl e \<Rightarrow> (Inl e, m')
         | Inr u \<Rightarrow> edit_loop i us (assign i (\<lambda>c. c\<lparr>email := v\<rparr>) m'))
      else if a = ''phone'' then
        (let (r, m') = swap_phone (contacts m ! i) v m in
         case r of
           Inl e \<Rightarrow> (Inl e, m')
         | Inr u \<Rightarrow> edit_loop i us (assign i (\<lambda>c. c\<lparr>phone := v\<rparr>) m'))
      else if a = ''address'' then edit_loop i us (assign i (\<lambda>c. c\<lparr>address := Some v\<rparr>) m)
      else edit_loop i us m)"

definition position_of :: "ustring \<Rightarrow> contact list \<Rightarrow> nat" where
  "position_of p cs = length (takeWhile (\<lambda>x. phone x \<noteq> p) cs)"

definition edit_contact ::
  "ustring \<Rightarrow> (string \<times> ustring) list \<Rightarrow> mgr \<Rightarrow> (error + unit) \<times> mgr" where
  "edit_contact phone_id updates m =
     (case find_contact (Some phone_id) None m of
        Inl e \<Rightarrow> (Inl e, m)
      | Inr None \<Rightarrow> (Inl (ValueError Invalid_phone_identifier), m)
      | Inr (Some c) \<Rightarrow> edit_loop (position_of phone_id (contacts m)) updates m)"

subsection \<open>Snapshots\<close>

definition to_json :: "mgr \<Rightarrow> ConMgrJSON" where
  "to_json m =
     \<lparr>json_contacts = Some (map to_dict (contacts m)),
      json_store_path = Some (store_path m)\<rparr>"

text \<open>
  \<^verbatim>\<open>to_file\<close>: \<^verbatim>\<open>open(path, "w")\<close> fails with an \<^verbatim>\<open>OSError\<close> when the path
  is a directory or its parent directory does not exist; otherwise the file is
  created or overwritten in full with the text \<^verbatim>\<open>json.dump\<close> writes.
\<close>

definition to_file :: "mgr \<Rightarrow> filesys \<Rightarrow> error + filesys" where
  "to_file m fs =
     (let json_str = to_json m in
      case json_store_path json_str of
        None \<Rightarrow> Inl (KeyError (ustr ''store_path''))
      | Some p \<Rightarrow>
          if p \<in> dirs fs \<or> path_parent p \<notin> dirs fs then Inl OSError
          else Inr (fs\<lparr>files := (files fs)(p \<mapsto> json_dump json_str)\<rparr>))"

text \<open>
  \<^verbatim>\<open>from_file\<close>: the list comprehension stops at the first dictionary that
  \<^verbatim>\<open>from_dict\<close> rejects.
\<close>

fun from_dict_all :: "(nat \<Rightarrow> bool) \<Rightarrow> pydict list \<Rightarrow> error + contact list" where
  "from_dict_all dec [] = Inr []"
| "from_dict_all dec (d # ds) =
     (case from_dict dec d of
        Inl e \<Rightarrow> Inl e
      | Inr c \<Rightarrow>
          (case from_dict_all dec ds of Inl e \<Rightarrow> Inl e | Inr cs \<Rightarrow> Inr (c # cs)))"

definition from_file :: "(nat \<Rightarrow> bool) \<Rightarrow> filesys \<Rightarrow> path \<Rightarrow> error + mgr" where
  "from_file dec fs p =
     (if \<not> path_exists fs p then Inl (ValueError (File_not_exists p))
      else if \<not> path_is_file fs p then Inl (ValueError (File_not_file p))
      else if path_suffix p \<noteq> ustr ''.json'' then Inl (ValueError (File_not_json p))
      else
        (case files fs p of
           None \<Rightarrow> Inl OSError
         | Some ret \<Rightarrow>
             (case json_contacts ret of
                None \<Rightarrow> Inl (ValueError No_contacts)
              | Some ds \<Rightarrow>
                  (case json_store_path ret of
                     None \<Rightarrow> Inl (ValueError No_store_path)
                   | Some sp \<Rightarrow>
                       (case from_dict_all dec ds of
                          Inl e \<Rightarrow> Inl e
                        | Inr cons \<Rightarrow> ContactManager_init fs cons (path_parent sp))))))"

subsection \<open>The invariant of the manager\<close>

definition index_inv :: "mgr \<Rightarrow> bool" where
  "index_inv m =
     (phone_set m = phone ` set (contacts m) \<and> email_set m = email ` set (contacts m))"

definition unique_inv :: "mgr \<Rightarrow> bool" where
  "unique_inv m =
     (distinct (map phone (contacts m)) \<and> distinct (map email (contacts m)))"

definition mgr_inv :: "mgr \<Rightarrow> bool" where
  "mgr_inv m = (index_inv m \<and> unique_inv m)"

subsection \<open>A small collection used in the examples\<close>

text \<open>
  The examples take the ASCII digits, which every Unicode database classifies as
  decimal digits, for the class of \<^verbatim>\<open>\d\<close>.
\<close>

definition ascii_decimal :: "nat \<Rightarrow> bool" where
  "ascii_decimal c = (of_char (CHR ''0'') \<le> c \<and> c \<le> of_char (CHR ''9''))"

definition jake :: contact where
  "jake = \<lparr>first_name = ustr ''jake'', last_name = ustr ''smith'',
           email = ustr ''jake@x.com'', phone = ustr ''111111111'', address = None\<rparr>"

definition ann :: contact where
  "ann = \<lparr>first_name = ustr ''ann'', last_name = ustr ''lee'',
          email = ustr ''ann@y.com'', phone = ustr ''222222222'', address = None\<rparr>"

definition example_fs :: filesys where
  "example_fs =
     \<lparr>dirs = {[ustr ''tmp''], [ustr ''tmp'', ustr ''conmgr'']}, files = Map.empty\<rparr>"

definition example_mgr :: mgr where
  "example_mgr =
     \<lparr>contacts = [jake, ann],
      store_path = [ustr ''tmp'', ustr ''conmgr'', ustr ''contacts.json''],
      phone_set = {ustr ''111111111'', ustr ''222222222''},
      email_set = {ustr ''jake@x.com'', ustr ''ann@y.com''}\<rparr>"

text \<open>
  A contact whose first name is a high surrogate followed by a low surrogate, two
  code points, and the contact that a snapshot file gives back for it, whose first
  name is the one supplementary code point of that pair.
\<close>

definition split_pair :: contact where
  "split_pair = jake\<lparr>first_name := [0xD800, 0xDC00]\<rparr>"

definition merged_pair :: contact where
  "merged_pair = jake\<lparr>first_name := [0x10000]\<rparr>"

definition split_mgr :: mgr where
  "split_mgr =
     \<lparr>contacts = [split_pair],
      store_path = [ustr ''tmp'', ustr ''conmgr'', ustr ''contacts.json''],
      phone_set = {ustr ''111111111''}, email_set = {ustr ''jake@x.com''}\<rparr>"

section \<open>Properties of Contact\<close>

subsection \<open>Literals\<close>

lemma ustr_Nil [simp]: "ustr [] = []"
  by (simp add: ustr_def)

lemma ustr_Cons [simp]: "ustr (c # s) = of_char c # ustr s"
  by (simp add: ustr_def)

subsection \<open>What the two patterns accept\<close>

lemma re_match_Times:
  "re_match dec (Times n a # r) s =
     (n \<le> length s \<and> list_all (atom_ok dec a) (take n s) \<and> re_match dec r (drop n s))"
proof (induction n arbitrary: s)
  case 0
  show ?case by simp
next
  case (Suc n)
  show ?case by (cases s) (auto simp add: Suc)
qed

lemma re_match_Star:
  "re_match dec (Star a # r) s =
     (\<exists>u w. s = u @ w \<and> list_all (atom_ok dec a) u \<and> re_match dec r w)"
proof (induction s)
  case Nil
  show ?case by simp
next
  case (Cons c s)
  show ?case
  proof
    assume "re_match dec (Star a # r) (c # s)"
    then consider "atom_ok dec a c" "re_match dec (Star a # r) s" | "re_match dec r (c # s)" by auto
    then show "\<exists>u w. c # s = u @ w \<and> list_all (atom_ok dec a) u \<and> re_match dec r w"
    proof cases
      case 1
      then obtain u w where "s = u @ w" "list_all (atom_ok dec a) u" "re_match dec r w"
        using Cons.IH by auto
      then have "c # s = (c # u) @ w \<and> list_all (atom_ok dec a) (c # u) \<and> re_match dec r w"
        using 1 by simp
      then show ?thesis by blast
    next
      case 2
      then have "c # s = [] @ (c # s) \<and> list_all (atom_ok dec a) [] \<and> re_match dec r (c # s)"
        by simp
      then show ?thesis by blast
    qed
  next
    assume "\<exists>u w. c # s = u @ w \<and> list_all (atom_ok dec a) u \<and> re_match dec r w"
    then obtain u w where uw: "c # s = u @ w" "list_all (atom_ok dec a) u" "re_match dec r w"
      by blast
    show "re_match dec (Star a # r) (c # s)"
    proof (cases u)
      case Nil
      then have "re_match dec r (c # s)" using uw by simp
      then show ?thesis by simp
    next
      case (Cons x u')
      then have "s = u' @ w" "x = c" "atom_ok dec a c" "list_all (atom_ok dec a) u'" using uw by auto
      then have "re_match dec (Star a # r) s" using Cons.IH uw(3) by blast
      then show ?thesis using \<open>atom_ok dec a c\<close> by simp
    qed
  qed
qed

lemma phone_re_iff:
  "re_match dec phone_re p = (9 \<le> length p \<and> (\<forall>c \<in> set (take 9 p). dec c))"
  by (simp add: phone_re_def re_match_Times list_all_iff)

lemma re_match_One:
  "re_match dec (One a # r) s = (\<exists>c w. s = c # w \<and> atom_ok dec a c \<and> re_match dec r w)"
  by (cases s) auto

lemma re_match_Star_last: "re_match dec [Star a] s"
  by (induction s) simp_all

lemma re_match_dot_tail:
  "re_match dec [One (Ch d), Star Any] s = (\<exists>w. s = d # w)"
  by (cases s) (auto simp add: re_match_Star_last)

lemma re_match_at_tail:
  "re_match dec [One (Ch b), Star Any, One (Ch d), Star Any] s =
     (\<exists>v w. s = b # v @ d # w \<and> of_char (CHR 0x0A) \<notin> set v)"
  by (cases s) (auto simp add: re_match_Star re_match_dot_tail list_all_iff)

lemma email_re_iff:
  "re_match dec email_re e =
     (\<exists>u v w. e = u @ of_char (CHR ''@'') # v @ of_char (CHR ''.'') # w \<and>
        of_char (CHR 0x0A) \<notin> set u \<and> of_char (CHR 0x0A) \<notin> set v)"
  unfolding email_re_def
  by (auto simp add: re_match_Star [of dec Any "One (Ch b) # r" for b r]
      re_match_at_tail list_all_iff)

subsection \<open>Construction\<close>

text \<open>
  Claim C3. For every first name, last name and optional address, every email that
  matches the pattern \<^verbatim>\<open>.*@.*\..*\<close> and every phone that has at least nine
  characters of which the first nine are digits, the constructor succeeds and the
  contact holds the five values unchanged. For every email that does not match the
  pattern, and for every phone whose first nine characters are not all digits (or
  that is shorter than nine characters), the constructor fails with the
  \<^verbatim>\<open>ValueError\<close> that is the validation error of the source. A digit is a
  character of the class \<open>dec\<close> that \<^verbatim>\<open>\d\<close> stands for, whatever that class is.
  By \<open>email_re_iff\<close>, an email matches exactly when it has an \<^verbatim>\<open>@\<close> and a later
  dot with no newline before that dot.
\<close>

theorem Contact_init_spec:
  "(re_match dec email_re e \<and> 9 \<le> length p \<and> (\<forall>c \<in> set (take 9 p). dec c) \<longrightarrow>
      (\<exists>c. Contact_init dec f l e p a = Inr c \<and> first_name c = f \<and> last_name c = l \<and>
           email c = e \<and> phone c = p \<and> address c = a)) \<and>
   (\<not> re_match dec email_re e \<or> \<not> (9 \<le> length p \<and> (\<forall>c \<in> set (take 9 p). dec c)) \<longrightarrow>
      (\<exists>msg. Contact_init dec f l e p a = Inl (ValueError msg)))"
  by (simp add: Contact_init_def phone_re_iff)

text \<open>
  The witness takes, for the class of digits, the ASCII digits together with the
  Arabic-Indic digits U+0660 to U+0669: a phone of nine Arabic-Indic digits is
  accepted, a phone with a letter among its first nine characters is not, nor is an
  email without \<^verbatim>\<open>@\<close>.
\<close>

theorem Contact_init_spec_witness:
  "(\<exists>c. Contact_init (\<lambda>c. ascii_decimal c \<or> (0x0660 \<le> c \<and> c \<le> 0x0669))
          (ustr ''jake'') (ustr ''smith'') (ustr ''jake.smith@mail.com'')
          [0x0661, 0x0662, 0x0663, 0x0664, 0x0665, 0x0666, 0x0667, 0x0668, 0x0669] None = Inr c \<and>
        first_name c = ustr ''jake'' \<and> last_name c = ustr ''smith'' \<and>
        email c = ustr ''jake.smith@mail.com'' \<and>
        phone c = [0x0661, 0x0662, 0x0663, 0x0664, 0x0665, 0x0666, 0x0667, 0x0668, 0x0669] \<and>
        address c = None) \<and>
   (\<exists>msg. Contact_init (\<lambda>c. ascii_decimal c \<or> (0x0660 \<le> c \<and> c \<le> 0x0669))
            [] [] (ustr ''asdf'') (ustr ''999999999'') (Some []) = Inl (ValueError msg)) \<and>
   (\<exists>msg. Contact_init (\<lambda>c. ascii_decimal c \<or> (0x0660 \<le> c \<and> c \<le> 0x0669))
            [] [] (ustr ''a@b.c'') (ustr ''12345678x'') (Some []) = Inl (ValueError msg))"
proof -
  let ?dec = "\<lambda>c. ascii_decimal c \<or> (0x0660 \<le> c \<and> c \<le> 0x0669)"
  let ?p = "[0x0661, 0x0662, 0x0663, 0x0664, 0x0665, 0x0666, 0x0667, 0x0668, 0x0669] :: ustring"
  have h1: "re_match ?dec email_re (ustr ''jake.smith@mail.com'') \<and> 9 \<le> length ?p \<and>
            (\<forall>c \<in> set (take 9 ?p). ?dec c)"
    by (simp add: email_re_def)
  have h2: "\<not> re_match ?dec email_re (ustr ''asdf'') \<or>
            \<not> (9 \<le> length (ustr ''999999999'') \<and>
               (\<forall>c \<in> set (take 9 (ustr ''999999999'')). ?dec c))"
    by (simp add: email_re_def)
  have h3: "\<not> re_match ?dec email_re (ustr ''a@b.c'') \<or>
            \<not> (9 \<le> length (ustr ''12345678x'') \<and>
               (\<forall>c \<in> set (take 9 (ustr ''12345678x'')). ?dec c))"
    by (simp add: ascii_decimal_def)
  show ?thesis
    using h1 h2 h3
      Contact_init_spec [of ?dec "ustr ''jake.smith@mail.com''" ?p "ustr ''jake''"
        "ustr ''smith''" None]
      Contact_init_spec [of ?dec "ustr ''asdf''" "ustr ''999999999''" "[]" "[]" "Some []"]
      Contact_init_spec [of ?dec "ustr ''a@b.c''" "ustr ''12345678x''" "[]" "[]" "Some []"]
    by blast
qed

text \<open>
  The constructor looks at the class of digits only on the first nine characters of
  the phone: two classes that agree there give the same result. The examples below,
  whose phones are ASCII digits, therefore behave under \<open>ascii_decimal\<close> as under
  every class that contains the ASCII digits.
\<close>

lemma Contact_init_cong:
  assumes "\<forall>c \<in> set (take 9 p). dec c = dec' c"
  shows "Contact_init dec f l e p a = Contact_init dec' f l e p a"
  using assms by (simp add: Contact_init_def phone_re_iff email_re_iff)

subsection \<open>Equality\<close>

text \<open>
  Claim C7. Two contacts are equal exactly when they have the same phone or the same
  email. The relation is reflexive and symmetric. It is not transitive: whenever
  \<open>P \<noteq> Q\<close> and \<open>E1 \<noteq> E2\<close>, a contact with phone \<open>P\<close> and email \<open>E1\<close> equals one
  with \<open>P\<close> and \<open>E2\<close>, which equals one with \<open>Q\<close> and \<open>E2\<close>, while the first
  and the third are not equal.
\<close>

theorem Contact_eq_spec:
  "(Contact_eq a b \<longleftrightarrow> phone a = phone b \<or> email a = email b) \<and>
   Contact_eq a a \<and>
   (Contact_eq a b \<longleftrightarrow> Contact_eq b a) \<and>
   (P \<noteq> Q \<and> E1 \<noteq> E2 \<longrightarrow>
      Contact_eq (c1\<lparr>phone := P, email := E1\<rparr>) (c2\<lparr>phone := P, email := E2\<rparr>) \<and>
      Contact_eq (c2\<lparr>phone := P, email := E2\<rparr>) (c3\<lparr>phone := Q, email := E2\<rparr>) \<and>
      \<not> Contact_eq (c1\<lparr>phone := P, email := E1\<rparr>) (c3\<lparr>phone := Q, email := E2\<rparr>)) \<and>
   \<not> (\<forall>x y z. Contact_eq x y \<longrightarrow> Contact_eq y z \<longrightarrow> Contact_eq x z)"
proof -
  let ?c = "\<lambda>p e. \<lparr>first_name = [], last_name = [], email = e, phone = p, address = None\<rparr>"
  have "Contact_eq (?c (ustr ''1'') (ustr ''a'')) (?c (ustr ''1'') (ustr ''b''))" "Contact_eq (?c (ustr ''1'') (ustr ''b'')) (?c (ustr ''2'') (ustr ''b''))"
       "\<not> Contact_eq (?c (ustr ''1'') (ustr ''a'')) (?c (ustr ''2'') (ustr ''b''))"
    by (simp_all add: Contact_eq_def)
  then have "\<not> (\<forall>x y z. Contact_eq x y \<longrightarrow> Contact_eq y z \<longrightarrow> Contact_eq x z)" by blast
  then show ?thesis by (auto simp add: Contact_eq_def)
qed

theorem Contact_eq_spec_witness:
  "ustr ''111111111'' \<noteq> ustr ''222222222'' \<and> (ustr ''jake@x.com'') \<noteq> ustr ''ann@y.com'' \<and>
   Contact_eq jake (ann\<lparr>phone := ustr ''111111111''\<rparr>) \<and>
   Contact_eq (ann\<lparr>phone := ustr ''111111111''\<rparr>) ann \<and>
   \<not> Contact_eq jake ann"
  using Contact_eq_spec [of jake jake "ustr ''111111111''" "ustr ''222222222''" "ustr ''jake@x.com''" "ustr ''ann@y.com''"
      jake ann ann]
  by (simp add: jake_def ann_def)

subsection \<open>Dictionaries\<close>

lemma dom_to_dict: "dom (to_dict c) = ATTR_SET"
  by (auto simp add: to_dict_def ATTR_SET_def ATTR_LIST_def)

lemma from_dict_to_dict:
  assumes "re_match dec email_re (email c)" and "re_match dec phone_re (phone c)"
  shows "from_dict dec (to_dict c) = Inr c"
proof -
  have "getitem (to_dict c) ''first_name'' = Inr (Some (first_name c))"
       "getitem (to_dict c) ''last_name'' = Inr (Some (last_name c))"
       "getitem (to_dict c) ''email'' = Inr (Some (email c))"
       "getitem (to_dict c) ''phone'' = Inr (Some (phone c))"
       "getitem (to_dict c) ''address'' = Inr (address c)"
    by (simp_all add: getitem_def to_dict_def)
  then show ?thesis
    using assms by (simp add: from_dict_def dom_to_dict Contact_init_dyn_def Contact_init_def)
qed

lemma Contact_init_valid:
  assumes "Contact_init dec f l e p a = Inr c"
  shows "re_match dec email_re (email c)" and "re_match dec phone_re (phone c)"
  using assms by (auto simp add: Contact_init_def split: if_splits)

lemma jake_ann_constructed:
  "Contact_init ascii_decimal (ustr ''jake'') (ustr ''smith'') (ustr ''jake@x.com'') (ustr ''111111111'') None = Inr jake"
  "Contact_init ascii_decimal (ustr ''ann'') (ustr ''lee'') (ustr ''ann@y.com'') (ustr ''222222222'') None = Inr ann"
  by (simp_all add: Contact_init_def jake_def ann_def email_re_def phone_re_iff ascii_decimal_def)

text \<open>
  Claim C6. For every contact \<open>c\<close> that the constructor has produced, decoding the
  dictionary of \<open>c\<close> succeeds, and the result is equal to \<open>c\<close> under
  \<^verbatim>\<open>__eq__\<close> and has the same five fields.
\<close>

theorem dict_roundtrip:
  assumes "Contact_init dec f l e p a = Inr c"
  shows "\<exists>c'. from_dict dec (to_dict c) = Inr c' \<and> Contact_eq c' c \<and>
           first_name c' = first_name c \<and> last_name c' = last_name c \<and>
           email c' = email c \<and> phone c' = phone c \<and> address c' = address c"
  using from_dict_to_dict [OF Contact_init_valid [OF assms]]
  by (simp add: Contact_eq_def)

theorem dict_roundtrip_witness:
  "Contact_init ascii_decimal (ustr ''jake'') (ustr ''smith'') (ustr ''jake@x.com'') (ustr ''111111111'') None = Inr jake \<and>
   (\<exists>c'. from_dict ascii_decimal (to_dict jake) = Inr c' \<and> Contact_eq c' jake \<and>
           first_name c' = first_name jake \<and> last_name c' = last_name jake \<and>
           email c' = email jake \<and> phone c' = phone jake \<and> address c' = address jake)"
  using jake_ann_constructed(1) dict_roundtrip [OF jake_ann_constructed(1)] by blast

section \<open>Properties of ContactManager\<close>

lemma example_mgr_constructed:
  "ContactManager_init example_fs [jake, ann] [ustr ''tmp'', ustr ''conmgr''] = Inr example_mgr"
  by (simp add: ContactManager_init_def example_fs_def example_mgr_def jake_def ann_def
      path_exists_def path_is_dir_def path_join_def Let_def insert_commute)

subsection \<open>Adding a contact\<close>

text \<open>
  Claim C4. For every manager and contact \<open>c\<close>, \<^verbatim>\<open>add_contact\<close> raises
  \<^verbatim>\<open>DuplicatePhoneError(c)\<close> whenever the phone of \<open>c\<close> is in the phone index,
  also when the email collides as well; it raises \<^verbatim>\<open>DuplicateEmailError(c)\<close> when
  only the email is in its index; otherwise it appends \<open>c\<close> to the list of contacts
  and inserts its phone and its email into the two index sets.
\<close>

theorem add_contact_spec:
  "(phone c \<in> phone_set m \<longrightarrow> add_contact c m = (Inl (DuplicatePhoneError c), m)) \<and>
   (phone c \<notin> phone_set m \<and> email c \<in> email_set m \<longrightarrow>
      add_contact c m = (Inl (DuplicateEmailError c), m)) \<and>
   (phone c \<notin> phone_set m \<and> email c \<notin> email_set m \<longrightarrow>
      add_contact c m =
        (Inr (), m\<lparr>contacts := contacts m @ [c],
                   phone_set := insert (phone c) (phone_set m),
                   email_set := insert (email c) (email_set m)\<rparr>))"
  by (simp add: add_contact_def)

theorem add_contact_spec_witness:
  "add_contact (ann\<lparr>email := ustr ''jake@x.com''\<rparr>) example_mgr =
     (Inl (DuplicatePhoneError (ann\<lparr>email := ustr ''jake@x.com''\<rparr>)), example_mgr) \<and>
   add_contact (ann\<lparr>phone := ustr ''333333333''\<rparr>) example_mgr =
     (Inl (DuplicateEmailError (ann\<lparr>phone := ustr ''333333333''\<rparr>)), example_mgr) \<and>
   contacts (snd (add_contact (ann\<lparr>phone := ustr ''333333333'', email := ustr ''mike@z.com''\<rparr>) example_mgr)) =
     [jake, ann, ann\<lparr>phone := ustr ''333333333'', email := ustr ''mike@z.com''\<rparr>]"
  using add_contact_spec [of "ann\<lparr>email := ustr ''jake@x.com''\<rparr>" example_mgr]
    add_contact_spec [of "ann\<lparr>phone := ustr ''333333333''\<rparr>" example_mgr]
    add_contact_spec [of "ann\<lparr>phone := ustr ''333333333'', email := ustr ''mike@z.com''\<rparr>" example_mgr]
  by (simp add: example_mgr_def ann_def)

text \<open>
  Claim C9. When \<^verbatim>\<open>add_contact\<close> raises \<^verbatim>\<open>DuplicatePhoneError\<close> or
  \<^verbatim>\<open>DuplicateEmailError\<close>, the list of contacts, the phone index and the email
  index are as they were before the call; the whole manager is.
\<close>

theorem add_contact_atomic:
  assumes "fst (add_contact c m) = Inl (DuplicatePhoneError x) \<or>
           fst (add_contact c m) = Inl (DuplicateEmailError x)"
  shows "contacts (snd (add_contact c m)) = contacts m \<and>
         phone_set (snd (add_contact c m)) = phone_set m \<and>
         email_set (snd (add_contact c m)) = email_set m \<and>
         snd (add_contact c m) = m"
  using assms by (auto simp add: add_contact_def split: if_splits)

theorem add_contact_atomic_witness:
  "fst (add_contact ann example_mgr) = Inl (DuplicatePhoneError ann) \<and>
   snd (add_contact ann example_mgr) = example_mgr"
proof -
  have h: "fst (add_contact ann example_mgr) = Inl (DuplicatePhoneError ann)"
    by (simp add: add_contact_def example_mgr_def ann_def)
  show ?thesis using h add_contact_atomic [of ann example_mgr ann] by blast
qed

subsection \<open>Construction\<close>

lemma length_card_image: "(length xs = card (f ` set xs)) = distinct (map f xs)"
proof -
  have "f ` set xs = set (map f xs)" by simp
  then show ?thesis
    by (metis card_distinct distinct_card length_map)
qed

text \<open>
  Claim C10. The constructor validates the list before the directory. A list with a
  repeated phone raises the duplicate-phone error, and a list with distinct phones
  and a repeated email raises the duplicate-email error, for every file system and
  every directory path, existing or not. The directory checks are reached, and the
  construction can succeed, only for a list with distinct phones and distinct
  emails.
\<close>

theorem ContactManager_init_order:
  "(\<not> distinct (map phone cs) \<longrightarrow>
      ContactManager_init fs cs sp = Inl (ValueError Duplicate_phones)) \<and>
   (distinct (map phone cs) \<and> \<not> distinct (map email cs) \<longrightarrow>
      ContactManager_init fs cs sp = Inl (ValueError Duplicate_emails)) \<and>
   (ContactManager_init fs cs sp = Inl (ValueError (Path_not_exist sp)) \<or>
    ContactManager_init fs cs sp = Inl (ValueError Path_not_dir) \<or>
    (\<exists>m. ContactManager_init fs cs sp = Inr m) \<longrightarrow>
      distinct (map phone cs) \<and> distinct (map email cs))"
  by (auto simp add: ContactManager_init_def Let_def length_card_image split: if_splits)

theorem ContactManager_init_order_witness:
  "ContactManager_init \<lparr>dirs = {}, files = Map.empty\<rparr> [jake, jake] [ustr ''nowhere''] =
     Inl (ValueError Duplicate_phones) \<and>
   ContactManager_init \<lparr>dirs = {}, files = [[ustr ''conmgr''] \<mapsto> to_json example_mgr]\<rparr>
       [jake, ann\<lparr>email := ustr ''jake@x.com''\<rparr>] [ustr ''conmgr''] =
     Inl (ValueError Duplicate_emails) \<and>
   distinct (map phone [jake, ann]) \<and> distinct (map email [jake, ann])"
proof -
  have h1: "\<not> distinct (map phone [jake, jake])" by simp
  have h2: "distinct (map phone [jake, ann\<lparr>email := ustr ''jake@x.com''\<rparr>]) \<and>
            \<not> distinct (map email [jake, ann\<lparr>email := ustr ''jake@x.com''\<rparr>])"
    by (simp add: jake_def ann_def)
  have h3: "\<exists>m. ContactManager_init example_fs [jake, ann] [ustr ''tmp'', ustr ''conmgr''] = Inr m"
    using example_mgr_constructed by blast
  show ?thesis
    using h1 h2 h3
      ContactManager_init_order [of "[jake, jake]" "\<lparr>dirs = {}, files = Map.empty\<rparr>" "[ustr ''nowhere'']"]
      ContactManager_init_order [of "[jake, ann\<lparr>email := ustr ''jake@x.com''\<rparr>]"
        "\<lparr>dirs = {}, files = [[ustr ''conmgr''] \<mapsto> to_json example_mgr]\<rparr>" "[ustr ''conmgr'']"]
      ContactManager_init_order [of "[jake, ann]" example_fs "[ustr ''tmp'', ustr ''conmgr'']"]
    by blast
qed

subsection \<open>Saving and loading\<close>

lemma path_suffix_snapshot:
  "path_suffix (path_join sp (ustr ''contacts.json'')) = ustr ''.json''"
  by (simp add: path_suffix_def path_name_def path_join_def)

lemma merge_pair_free:
  assumes "pair_free s"
  shows "merge_surrogates s = s"
  using assms by (induction s rule: pair_free.induct) auto

lemma dump_dict_to_dict: "dump_dict (to_dict c) = to_dict (dump_contact c)"
  by (rule ext) (simp add: dump_dict_def to_dict_def dump_contact_def)

lemma dump_contact_pair_free:
  assumes "contact_pair_free c"
  shows "dump_contact c = c"
  using assms
  by (cases "address c") (simp_all add: dump_contact_def contact_pair_free_def merge_pair_free)

lemma json_dump_to_json:
  "json_dump (to_json m) =
     \<lparr>json_contacts = Some (map to_dict (map dump_contact (contacts m))),
      json_store_path = Some (map merge_surrogates (store_path m))\<rparr>"
  by (simp add: json_dump_def to_json_def dump_dict_to_dict)

lemma from_dict_all_to_dict:
  assumes "\<forall>c \<in> set cs. re_match dec email_re (email c) \<and> re_match dec phone_re (phone c)"
  shows "from_dict_all dec (map to_dict cs) = Inr cs"
  using assms by (induction cs) (simp_all add: from_dict_to_dict)

lemma ContactManager_init_Inr:
  assumes "ContactManager_init fs cs sp = Inr m"
  shows "m = \<lparr>contacts = cs, store_path = path_join sp (ustr ''contacts.json''),
               phone_set = phone ` set cs, email_set = email ` set cs\<rparr>"
    and "distinct (map phone cs)" and "distinct (map email cs)" and "sp \<in> dirs fs"
  using assms
  by (auto simp add: ContactManager_init_def Let_def length_card_image path_is_dir_def
      split: if_splits)

lemma ContactManager_init_dirs:
  assumes "ContactManager_init fs cs sp = Inr m" and "dirs fs' = dirs fs"
  shows "ContactManager_init fs' cs sp = Inr m"
  using assms
  by (auto simp add: ContactManager_init_def Let_def path_is_dir_def path_exists_def
      split: if_splits)

lemma split_pair_constructed:
  "Contact_init ascii_decimal [0xD800, 0xDC00] (ustr ''smith'') (ustr ''jake@x.com'')
     (ustr ''111111111'') None = Inr split_pair"
  by (simp add: Contact_init_def split_pair_def jake_def email_re_def phone_re_iff
      ascii_decimal_def)

lemma split_mgr_constructed:
  "ContactManager_init example_fs [split_pair] [ustr ''tmp'', ustr ''conmgr''] = Inr split_mgr"
  by (simp add: ContactManager_init_def example_fs_def split_mgr_def split_pair_def jake_def
      path_exists_def path_is_dir_def path_join_def Let_def)

text \<open>
  Claim C5, as it is stated, says that saving a validly constructed collection and
  loading the snapshot gives back the same list of contacts, field for field. The
  contact \<open>split_pair\<close> is valid, and a collection of it alone is validly
  constructed and saved; its first name has two code points, a high and a low
  surrogate. The text \<^verbatim>\<open>json.dump\<close> writes for that name is the text of the one
  supplementary code point U+10000, and that is the first name of the contact that
  \<^verbatim>\<open>from_file\<close> loads.
\<close>

theorem snapshot_roundtrip_surrogate_pair:
  "Contact_init ascii_decimal [0xD800, 0xDC00] (ustr ''smith'') (ustr ''jake@x.com'')
     (ustr ''111111111'') None = Inr split_pair \<and>
   ContactManager_init example_fs [split_pair] [ustr ''tmp'', ustr ''conmgr''] = Inr split_mgr \<and>
   to_file split_mgr example_fs =
     Inr (example_fs\<lparr>files := [store_path split_mgr \<mapsto> json_dump (to_json split_mgr)]\<rparr>) \<and>
   from_file ascii_decimal
       (example_fs\<lparr>files := [store_path split_mgr \<mapsto> json_dump (to_json split_mgr)]\<rparr>)
       (store_path split_mgr) =
     Inr (split_mgr\<lparr>contacts := [merged_pair]\<rparr>) \<and>
   first_name merged_pair = [0x10000] \<and>
   first_name split_pair = [0xD800, 0xDC00] \<and>
   [merged_pair] \<noteq> contacts split_mgr"
proof -
  have save: "to_file split_mgr example_fs =
     Inr (example_fs\<lparr>files := [store_path split_mgr \<mapsto> json_dump (to_json split_mgr)]\<rparr>)"
    by (simp add: to_file_def to_json_def Let_def split_mgr_def example_fs_def path_parent_def)
  have dumped: "dump_contact split_pair = merged_pair"
    by (simp add: dump_contact_def split_pair_def merged_pair_def jake_def
        is_high_surrogate_def is_low_surrogate_def)
  have ok: "re_match ascii_decimal email_re (email merged_pair)"
       "re_match ascii_decimal phone_re (phone merged_pair)"
    by (simp_all add: merged_pair_def jake_def email_re_def phone_re_iff ascii_decimal_def)
  have decoded: "from_dict ascii_decimal (to_dict merged_pair) = Inr merged_pair"
    by (rule from_dict_to_dict [OF ok])
  have path: "map merge_surrogates (store_path split_mgr) = store_path split_mgr"
    by (simp add: split_mgr_def is_high_surrogate_def is_low_surrogate_def)
  have sfx: "path_suffix (store_path split_mgr) = ustr ''.json''"
    using path_suffix_snapshot [of "[ustr ''tmp'', ustr ''conmgr'']"]
    by (simp add: split_mgr_def path_join_def)
  have init': "ContactManager_init (example_fs\<lparr>files := F\<rparr>)
       [merged_pair] (path_parent (store_path split_mgr)) =
     Inr (split_mgr\<lparr>contacts := [merged_pair]\<rparr>)" for F
    by (simp add: ContactManager_init_def example_fs_def split_mgr_def merged_pair_def jake_def
        path_exists_def path_is_dir_def path_join_def path_parent_def Let_def)
  have load: "from_file ascii_decimal
       (example_fs\<lparr>files := [store_path split_mgr \<mapsto> json_dump (to_json split_mgr)]\<rparr>)
       (store_path split_mgr) =
     Inr (split_mgr\<lparr>contacts := [merged_pair]\<rparr>)"
  proof -
    have cs: "contacts split_mgr = [split_pair]" by (simp add: split_mgr_def)
    have nd: "store_path split_mgr \<notin> dirs example_fs"
      by (simp add: split_mgr_def example_fs_def)
    show ?thesis
      unfolding from_file_def
      using nd
      by (simp add: sfx json_dump_to_json path cs dumped decoded init' path_exists_def
          path_is_file_def)
  qed
  have differ: "[merged_pair] \<noteq> contacts split_mgr"
    by (simp add: split_mgr_def split_pair_def merged_pair_def jake_def)
  show ?thesis
    using split_pair_constructed split_mgr_constructed save load differ
    by (simp add: merged_pair_def split_pair_def)
qed

text \<open>
  Claim C5, amended. Build a manager from a list of constructed contacts and a store
  directory, where no field of a contact and no component of the directory path has a
  high surrogate code point followed by a low surrogate code point; save it, and
  load the file it wrote: the loaded manager has the same list of contacts, field for
  field and in the same order; it is the same manager. Saving is the one step that
  can fail after a successful construction, when the snapshot path is itself a
  directory; the statement is about the snapshot that a successful save produced.
\<close>

theorem snapshot_roundtrip:
  assumes valid: "\<forall>c \<in> set cs. \<exists>f l e p a. Contact_init dec f l e p a = Inr c"
    and free: "\<forall>c \<in> set cs. contact_pair_free c"
    and pfree: "\<forall>x \<in> set sp. pair_free x"
    and init: "ContactManager_init fs cs sp = Inr m"
    and save: "to_file m fs = Inr fs'"
  shows "\<exists>m'. from_file dec fs' (store_path m) = Inr m' \<and> contacts m' = contacts m \<and>
           contacts m = cs \<and> m' = m"
proof -
  let ?p = "path_join sp (ustr ''contacts.json'')"
  note m = ContactManager_init_Inr [OF init]
  have sp: "store_path m = ?p" and cs: "contacts m = cs" using m(1) by simp_all
  have nd: "?p \<notin> dirs fs"
    and fs': "fs' = fs\<lparr>files := (files fs)(?p \<mapsto> json_dump (to_json m))\<rparr>"
    using save sp by (auto simp add: to_file_def to_json_def Let_def split: if_splits)
  have "map dump_contact cs = cs"
    using free by (simp add: map_idI dump_contact_pair_free)
  moreover have "map merge_surrogates ?p = ?p"
  proof -
    have "pair_free (ustr ''contacts.json'')"
      by (simp add: is_high_surrogate_def is_low_surrogate_def)
    then show ?thesis
      using pfree by (simp add: path_join_def map_idI merge_pair_free)
  qed
  ultimately have "json_dump (to_json m) =
      \<lparr>json_contacts = Some (map to_dict cs), json_store_path = Some ?p\<rparr>"
    unfolding json_dump_to_json sp cs by simp
  then have same: "json_dump (to_json m) = to_json m"
    unfolding to_json_def sp cs by simp
  have ok: "\<forall>c \<in> set cs. re_match dec email_re (email c) \<and> re_match dec phone_re (phone c)"
    using valid Contact_init_valid by blast
  have all: "from_dict_all dec (map to_dict cs) = Inr cs"
    by (rule from_dict_all_to_dict [OF ok])
  have again: "ContactManager_init fs' cs sp = Inr m"
    by (rule ContactManager_init_dirs [OF init]) (simp add: fs')
  have parent: "path_parent ?p = sp" by (simp add: path_parent_def path_join_def)
  have stored: "files fs' ?p = Some (to_json m)" by (simp add: fs' same)
  have there: "path_exists fs' ?p" "path_is_file fs' ?p"
    using nd by (simp_all add: fs' path_exists_def path_is_file_def)
  have doc: "json_contacts (to_json m) = Some (map to_dict cs)"
    "json_store_path (to_json m) = Some ?p"
    by (simp_all add: to_json_def sp cs)
  have "from_file dec fs' ?p = Inr m"
    unfolding from_file_def
    by (simp add: there path_suffix_snapshot stored doc all parent again
        del: ustr_Cons ustr_Nil)
  then show ?thesis using sp cs by simp
qed

theorem snapshot_roundtrip_witness:
  "Contact_init ascii_decimal (ustr ''jake'') (ustr ''smith'') (ustr ''jake@x.com'')
     (ustr ''111111111'') None = Inr jake \<and>
   Contact_init ascii_decimal (ustr ''ann'') (ustr ''lee'') (ustr ''ann@y.com'')
     (ustr ''222222222'') None = Inr ann \<and>
   ContactManager_init example_fs [jake, ann] [ustr ''tmp'', ustr ''conmgr''] = Inr example_mgr \<and>
   to_file example_mgr example_fs =
     Inr (example_fs\<lparr>files := [store_path example_mgr \<mapsto> json_dump (to_json example_mgr)]\<rparr>) \<and>
   (\<exists>m'. from_file ascii_decimal
            (example_fs\<lparr>files := [store_path example_mgr \<mapsto> json_dump (to_json example_mgr)]\<rparr>)
            (store_path example_mgr) = Inr m' \<and>
         contacts m' = contacts example_mgr \<and> contacts example_mgr = [jake, ann] \<and>
         m' = example_mgr)"
proof -
  have "\<exists>f l e p a. Contact_init ascii_decimal f l e p a = Inr jake"
    using jake_ann_constructed(1) by blast
  moreover have "\<exists>f l e p a. Contact_init ascii_decimal f l e p a = Inr ann"
    using jake_ann_constructed(2) by blast
  ultimately have h1:
    "\<forall>c \<in> set [jake, ann]. \<exists>f l e p a. Contact_init ascii_decimal f l e p a = Inr c"
    by simp
  have h2: "\<forall>c \<in> set [jake, ann]. contact_pair_free c"
    by (simp add: contact_pair_free_def jake_def ann_def is_high_surrogate_def
        is_low_surrogate_def)
  have h3: "\<forall>x \<in> set [ustr ''tmp'', ustr ''conmgr'']. pair_free x"
    by (simp add: is_high_surrogate_def is_low_surrogate_def)
  have h5: "to_file example_mgr example_fs =
     Inr (example_fs\<lparr>files := [store_path example_mgr \<mapsto> json_dump (to_json example_mgr)]\<rparr>)"
    by (simp add: to_file_def to_json_def Let_def example_mgr_def example_fs_def path_parent_def)
  show ?thesis
    using jake_ann_constructed example_mgr_constructed h5
      snapshot_roundtrip [OF h1 h2 h3 example_mgr_constructed h5]
    by blast
qed

subsection \<open>Removing a contact\<close>

lemma remove_contact_phone_only_absent:
  assumes "p \<notin> phone_set m"
  shows "remove_contact (Some p) None m = (Inl (ValueError Provide_phone_or_email), m)"
  using assms by (simp add: remove_contact_def remove_by_email_def find_contact_def)

lemma remove_contact_email_absent:
  assumes "e \<noteq> []" and "e \<notin> email_set m" and "phn = None \<or> (\<exists>p. phn = Some p \<and> p \<noteq> [] \<and> p \<notin> phone_set m)"
  shows "remove_contact phn (Some e) m = (Inr (), m)"
  using assms by (auto simp add: remove_contact_def remove_by_email_def find_contact_def)

text \<open>
  Claim C1. The claim is that \<^verbatim>\<open>remove_contact\<close> with a selector that matches
  no stored contact returns normally and leaves the manager unchanged, in particular
  when only a phone is given and it is not in the phone index. With an email that is
  not indexed the call is indeed a no-operation (\<open>remove_contact_email_absent\<close>).
  With a phone alone it is not: the lookup by phone finds nothing, the method falls
  through to \<^verbatim>\<open>find_contact(email=None)\<close>, and that call raises the
  \<^verbatim>\<open>ValueError\<close> for a missing selector (\<open>remove_contact_phone_only_absent\<close>).
  The manager is left unchanged, but the call raises. On the two-contact collection
  of the examples:
\<close>

theorem remove_contact_phone_only_raises:
  "ustr ''555555555'' \<notin> phone_set example_mgr \<and>
   remove_contact (Some (ustr ''555555555'')) None example_mgr =
     (Inl (ValueError Provide_phone_or_email), example_mgr)"
  by (simp add: remove_contact_def remove_by_email_def find_contact_def example_mgr_def)

subsection \<open>The invariant\<close>

text \<open>
  Construction establishes, and \<^verbatim>\<open>add_contact\<close> and \<^verbatim>\<open>remove_contact\<close>
  preserve, that the two index sets are the phones and the emails of the stored
  contacts and that no two stored contacts share a phone or an email.
  \<^verbatim>\<open>find_contact\<close> changes nothing.
\<close>

lemma ContactManager_init_inv:
  assumes "ContactManager_init fs cs sp = Inr m"
  shows "mgr_inv m"
  using ContactManager_init_Inr [OF assms]
  by (simp add: mgr_inv_def index_inv_def unique_inv_def)

lemma add_contact_inv:
  assumes "mgr_inv m"
  shows "mgr_inv (snd (add_contact c m))"
  using assms
  by (auto simp add: add_contact_def mgr_inv_def index_inv_def unique_inv_def)

lemma list_remove_unique:
  assumes "inj_on phone (set cs)" and "inj_on email (set cs)" and "c \<in> set cs"
  shows "list_remove c cs = Some (remove1 c cs)"
  using assms
proof (induction cs)
  case Nil
  then show ?case by simp
next
  case (Cons x xs)
  show ?case
  proof (cases "x = c")
    case True
    then show ?thesis by (simp add: Contact_eq_def)
  next
    case False
    have "phone x \<noteq> phone c" using Cons.prems False by (auto simp add: inj_on_def)
    moreover have "email x \<noteq> email c" using Cons.prems False by (auto simp add: inj_on_def)
    moreover have "list_remove c xs = Some (remove1 c xs)"
      using Cons False by (auto simp add: inj_on_def)
    ultimately show ?thesis using False by (simp add: Contact_eq_def)
  qed
qed

lemma image_remove1:
  assumes "distinct (map f cs)" and "c \<in> set cs"
  shows "f ` set (remove1 c cs) = f ` set cs - {f c}"
    and "distinct (map f (remove1 c cs))"
proof -
  have d: "distinct cs" and i: "inj_on f (set cs)" using assms(1) by (simp_all add: distinct_map)
  have "set (remove1 c cs) = set cs - {c}" using d by simp
  then show "f ` set (remove1 c cs) = f ` set cs - {f c}"
    using i assms(2) by (auto simp add: inj_on_def)
  show "distinct (map f (remove1 c cs))"
    using d i by (auto simp add: distinct_map inj_on_def dest: notin_set_remove1)
qed

lemma remove_contact_priv_inv:
  assumes "mgr_inv m" and "c \<in> set (contacts m)"
  shows "fst (remove_contact_priv c m) = Inr () \<and> mgr_inv (snd (remove_contact_priv c m)) \<and>
         contacts (snd (remove_contact_priv c m)) = remove1 c (contacts m)"
proof -
  have dp: "distinct (map phone (contacts m))" and de: "distinct (map email (contacts m))"
    and ps: "phone_set m = phone ` set (contacts m)" and es: "email_set m = email ` set (contacts m)"
    using assms(1) by (simp_all add: mgr_inv_def index_inv_def unique_inv_def)
  have lr: "list_remove c (contacts m) = Some (remove1 c (contacts m))"
    using dp de assms(2) by (intro list_remove_unique) (simp_all add: distinct_map)
  show ?thesis
    using assms(2) ps es lr image_remove1 [OF dp assms(2)] image_remove1 [OF de assms(2)]
    by (simp add: remove_contact_priv_def Let_def mgr_inv_def index_inv_def unique_inv_def)
qed

lemma find_contact_member:
  assumes "find_contact phn eml m = Inr (Some c)"
  shows "c \<in> set (contacts m)"
  using assms
  by (auto simp add: find_contact_def find_contact_phone_def find_contact_email_def
      some_result_def find_Some_iff split: if_splits option.splits)

lemma remove_contact_inv:
  assumes "mgr_inv m"
  shows "mgr_inv (snd (remove_contact phn eml m))"
proof -
  have priv: "\<And>c q e. find_contact q e m = Inr (Some c) \<Longrightarrow> mgr_inv (snd (remove_contact_priv c m))"
    using remove_contact_priv_inv [OF assms] find_contact_member by blast
  have by_email: "mgr_inv (snd (remove_by_email eml m))"
    using assms priv by (auto simp add: remove_by_email_def split: sum.splits option.splits)
  show ?thesis
    using assms priv by_email
    by (auto simp add: remove_contact_def split: sum.splits option.splits)
qed

text \<open>
  Claim C2. The claim is that after every public operation the phone index is the
  set of the phones of the stored contacts, the email index the set of their
  emails, and no two stored contacts share a phone or an email. That holds after
  construction, \<^verbatim>\<open>add_contact\<close>, \<^verbatim>\<open>find_contact\<close> and
  \<^verbatim>\<open>remove_contact\<close>, by the lemmas above. \<^verbatim>\<open>edit_contact\<close> swaps the
  index entry and assigns the field without the duplicate check that
  \<^verbatim>\<open>add_contact\<close> makes: editing the phone of the first contact of the example
  collection to the phone of the second leaves two stored contacts with one phone,
  and a second edit by that phone then leaves the phone index without the phone of
  a stored contact.
\<close>

theorem edit_contact_breaks_invariant:
  "index_inv example_mgr \<and> unique_inv example_mgr \<and>
   fst (edit_contact (ustr ''111111111'') [(''phone'', ustr ''222222222'')] example_mgr) = Inr () \<and>
   map phone (contacts (snd (edit_contact (ustr ''111111111'') [(''phone'', ustr ''222222222'')] example_mgr)))
     = [ustr ''222222222'', ustr ''222222222''] \<and>
   \<not> unique_inv (snd (edit_contact (ustr ''111111111'') [(''phone'', ustr ''222222222'')] example_mgr)) \<and>
   fst (edit_contact (ustr ''222222222'') [(''phone'', ustr ''333333333'')]
         (snd (edit_contact (ustr ''111111111'') [(''phone'', ustr ''222222222'')] example_mgr))) = Inr () \<and>
   \<not> index_inv (snd (edit_contact (ustr ''222222222'') [(''phone'', ustr ''333333333'')]
         (snd (edit_contact (ustr ''111111111'') [(''phone'', ustr ''222222222'')] example_mgr))))"
  by (simp add: edit_contact_def find_contact_def find_contact_phone_def some_result_def
      position_of_def swap_phone_def assign_def example_mgr_def jake_def ann_def
      index_inv_def unique_inv_def)

subsection \<open>The empty phone as a selector\<close>




end
